theory Spec2Isabelle
  imports Main "HOL-Library.Sublist" "HOL-Library.AList"
begin

section \<open>Python values and exceptions\<close>

text \<open>
  The client moves decoded JSON around without checking its shape, so the model keeps the
  values dynamic: one datatype for everything \<open>json.loads\<close> can return. \<open>JNull\<close> is
  Python's \<open>None\<close>, a \<open>JObj\<close> is a dict (keys looked up with \<open>map_of\<close>), a byte string and
  a text string are both a \<open>string\<close>. JSON numbers are carried by their integer value.
\<close>

datatype json =
    JNull
  | JBool bool
  | JInt int
  | JStr string
  | JArr "json list"
  | JObj "(string \<times> json) list"

datatype error =
    ConnectionResetError
  | JSONDecodeError
  | UnicodeDecodeError
  | UnboundLocalError
  | AttributeError
  | KeyError
  | TypeError
  | ValueError string

type_synonym 'a result = "error + 'a"

abbreviation ProtocolError :: error where
  "ProtocolError \<equiv> ValueError ''unexpected error occurred''"

fun and_then :: "'a result \<Rightarrow> ('a \<Rightarrow> 'b result) \<Rightarrow> 'b result" where
  "and_then (Inl e) f = Inl e"
| "and_then (Inr x) f = f x"

text \<open>Truth value of an object, as \<open>if x:\<close> and \<open>not x\<close> test it.\<close>

fun truthy :: "json \<Rightarrow> bool" where
  "truthy JNull = False"
| "truthy (JBool b) = b"
| "truthy (JInt i) = (i \<noteq> 0)"
| "truthy (JStr s) = (s \<noteq> [])"
| "truthy (JArr xs) = (xs \<noteq> [])"
| "truthy (JObj kvs) = (kvs \<noteq> [])"

text \<open>\<open>v.get(k, d)\<close>: only a dict has the method.\<close>

fun py_get :: "json \<Rightarrow> string \<Rightarrow> json \<Rightarrow> json result" where
  "py_get (JObj kvs) k d = Inr (case map_of kvs k of None \<Rightarrow> d | Some x \<Rightarrow> x)"
| "py_get v k d = Inl AttributeError"

text \<open>\<open>v[k]\<close> for a string key \<open>k\<close>: a missing key of a dict is a KeyError, any other
  object refuses a string subscript with a TypeError.\<close>

fun py_item :: "json \<Rightarrow> string \<Rightarrow> json result" where
  "py_item (JObj kvs) k = (case map_of kvs k of None \<Rightarrow> Inl KeyError | Some x \<Rightarrow> Inr x)"
| "py_item v k = Inl TypeError"

text \<open>\<open>k in v\<close> for a string \<open>k\<close>: a key of a dict, an element of a list, a substring of
  a string; nothing else is a container.\<close>

fun py_in :: "string \<Rightarrow> json \<Rightarrow> bool result" where
  "py_in k (JObj kvs) = Inr (map_of kvs k \<noteq> None)"
| "py_in k (JArr xs) = Inr (JStr k \<in> set xs)"
| "py_in k (JStr s) = Inr (sublist k s)"
| "py_in k v = Inl TypeError"

text \<open>The items a \<open>for\<close> loop draws from an object.\<close>

fun py_iter :: "json \<Rightarrow> json list result" where
  "py_iter (JArr xs) = Inr xs"
| "py_iter (JObj kvs) = Inr (map (\<lambda>kv. JStr (fst kv)) kvs)"
| "py_iter (JStr s) = Inr (map (\<lambda>c. JStr [c]) s)"
| "py_iter v = Inl TypeError"

section \<open>types.py\<close>

text \<open>The \<open>attr\<close> classes declare types but validate nothing: every field holds whatever
  it is given. The attachment's \<open>id\<close> and the message's \<open>text\<close> are renamed, the names being
  taken in Isabelle.\<close>

record attachment =
  content_type :: json
  id' :: json
  size' :: json
  stored_filename :: json

record message =
  username :: json
  source :: json
  text' :: json
  source_device :: json
  timestamp :: json
  timestamp_iso :: json
  attachments :: "attachment list"
  group_info :: json
  group_list :: "json list"

section \<open>Transport\<close>

definition newline :: char where
  "newline = CHR 0x0A"

text \<open>
  \<open>readlines\<close>: the bytes the peer sends before it closes the connection, read one at a
  time. Each newline yields the buffer; the empty read at the end raises
  ConnectionResetError, and the bytes of an unfinished line are lost with it. The result
  is the list of lines yielded before that error.
\<close>

fun readlines :: "string \<Rightarrow> string \<Rightarrow> string list" where
  "readlines buf [] = []"
| "readlines buf (c # cs) =
     (if c = newline then buf # readlines [] cs else readlines (buf @ [c]) cs)"

text \<open>\<open>response.split(b"\n")\<close>.\<close>

fun split_on :: "char \<Rightarrow> string \<Rightarrow> string list" where
  "split_on sep [] = [[]]"
| "split_on sep (c # cs) =
     (if c = sep then [] # split_on sep cs
      else (case split_on sep cs of [] \<Rightarrow> [[c]] | l # ls \<Rightarrow> (c # l) # ls))"

section \<open>The command client\<close>

text \<open>
  Two things come from outside the repository and are parameters of the model:
  \<^item> \<open>loads\<close>, the JSON parser: the decoded value, or the exception \<open>json.loads\<close> (with
    the decoding of the bytes before it) raises;
  \<^item> \<open>daemon\<close>, the other end of the command sockets: for the \<open>n\<close>-th command of a
    run, the identifier \<open>_get_id\<close> draws for it and the bytes the daemon has ready when
    the client reads its answer.
  Connecting and writing are taken to succeed, and the read of 1024 bytes before the
  command is written is left out: what it returns is thrown away. The state of a run is
  the list of the payloads written so far, oldest first.
\<close>

type_synonym payload = "(string \<times> json) list"
type_synonym parser = "string \<Rightarrow> json result"
type_synonym daemon = "nat \<Rightarrow> string \<times> string"

text \<open>The loop over the lines of the response (lines 60 to 72). Falling off the end of
  the loop returns \<open>None\<close>.\<close>

fun scan :: "parser \<Rightarrow> string \<Rightarrow> string list \<Rightarrow> json result" where
  "scan loads msg_id [] = Inr JNull"
| "scan loads msg_id (line # lines) =
     (if \<not> sublist msg_id line then scan loads msg_id lines
      else (case loads line of
              Inl e \<Rightarrow> Inl e
            | Inr data \<Rightarrow>
                (case py_get data ''id'' JNull of
                   Inl e \<Rightarrow> Inl e
                 | Inr i \<Rightarrow>
                     if i \<noteq> JStr msg_id then scan loads msg_id lines
                     else (case py_item data ''type'' of
                             Inl e \<Rightarrow> Inl e
                           | Inr t \<Rightarrow>
                               if t = JStr ''unexpected_error'' then Inl ProtocolError
                               else Inr data))))"

definition send_command ::
  "parser \<Rightarrow> daemon \<Rightarrow> payload \<Rightarrow> bool \<Rightarrow> payload list \<Rightarrow> json result \<times> payload list" where
  "send_command loads daemon payload block sent =
     (let (msg_id, response) = daemon (length sent);
          payload = AList.update ''id'' (JStr msg_id) payload;
          sent = sent @ [payload]
      in if \<not> block then (Inr JNull, sent)
         else (scan loads msg_id (split_on newline (take (4 * 1024) response)), sent))"

text \<open>The operations built on it. All but \<open>get_group_list\<close> drop the value
  \<open>_send_command\<close> returns.\<close>

fun discard :: "json result \<times> payload list \<Rightarrow> unit result \<times> payload list" where
  "discard (Inl e, sent) = (Inl e, sent)"
| "discard (Inr v, sent) = (Inr (), sent)"

definition register ::
  "parser \<Rightarrow> daemon \<Rightarrow> json \<Rightarrow> json \<Rightarrow> payload list \<Rightarrow> unit result \<times> payload list" where
  "register loads daemon user voice sent =
     discard (send_command loads daemon
       [(''type'', JStr ''register''), (''username'', user), (''voice'', voice)] False sent)"

definition verify ::
  "parser \<Rightarrow> daemon \<Rightarrow> json \<Rightarrow> json \<Rightarrow> payload list \<Rightarrow> unit result \<times> payload list" where
  "verify loads daemon user code sent =
     discard (send_command loads daemon
       [(''type'', JStr ''verify''), (''username'', user), (''code'', code)] False sent)"

definition get_group_list ::
  "parser \<Rightarrow> daemon \<Rightarrow> json \<Rightarrow> bool \<Rightarrow> payload list \<Rightarrow> json result \<times> payload list" where
  "get_group_list loads daemon user block sent =
     send_command loads daemon
       [(''type'', JStr ''list_groups''), (''username'', user)] block sent"

definition leave_group ::
  "parser \<Rightarrow> daemon \<Rightarrow> json \<Rightarrow> json \<Rightarrow> bool \<Rightarrow> payload list \<Rightarrow> unit result \<times> payload list" where
  "leave_group loads daemon user recipient_group_id block sent =
     discard (send_command loads daemon
       [(''type'', JStr ''leave_group''), (''username'', user),
        (''recipientGroupId'', recipient_group_id)] block sent)"

definition mark_read ::
  "parser \<Rightarrow> daemon \<Rightarrow> json \<Rightarrow> json \<Rightarrow> json \<Rightarrow> bool \<Rightarrow> payload list
     \<Rightarrow> unit result \<times> payload list" where
  "mark_read loads daemon user recipient timestamps block sent =
     discard (send_command loads daemon
       [(''type'', JStr ''mark_read''), (''username'', user),
        (''recipientAddress'', recipient), (''timestamps'', timestamps)] block sent)"

definition send_message ::
  "parser \<Rightarrow> daemon \<Rightarrow> json \<Rightarrow> json \<Rightarrow> json \<Rightarrow> bool \<Rightarrow> payload list
     \<Rightarrow> unit result \<times> payload list" where
  "send_message loads daemon user recipient txt block sent =
     discard (send_command loads daemon
       [(''type'', JStr ''send''), (''username'', user),
        (''recipientAddress'', recipient), (''messageBody'', txt)] block sent)"

definition send_group_message ::
  "parser \<Rightarrow> daemon \<Rightarrow> json \<Rightarrow> json \<Rightarrow> json \<Rightarrow> bool \<Rightarrow> payload list
     \<Rightarrow> unit result \<times> payload list" where
  "send_group_message loads daemon user recipient_group_id txt block sent =
     discard (send_command loads daemon
       [(''type'', JStr ''send''), (''username'', user),
        (''recipientGroupId'', recipient_group_id), (''messageBody'', txt)] block sent)"

section \<open>The message stream\<close>

fun attachment_of :: "json \<Rightarrow> attachment result" where
  "attachment_of a =
     and_then (py_item a ''contentType'') (\<lambda>ct.
     and_then (py_item a ''id'') (\<lambda>i.
     and_then (py_item a ''size'') (\<lambda>sz.
     and_then (py_item a ''storedFilename'') (\<lambda>sf.
       Inr \<lparr>content_type = ct, id' = i, size' = sz, stored_filename = sf\<rparr>))))"

fun attachments_of :: "json list \<Rightarrow> attachment list result" where
  "attachments_of [] = Inr []"
| "attachments_of (a # as) =
     (case attachment_of a of
        Inl e \<Rightarrow> Inl e
      | Inr x \<Rightarrow> (case attachments_of as of Inl e \<Rightarrow> Inl e | Inr xs \<Rightarrow> Inr (x # xs)))"

text \<open>Lines 113 to 132, on the value of \<open>message["data"]\<close>: the arguments of the
  constructor in the order they are evaluated. \<open>group_list\<close> is not passed and keeps the
  default of its class.\<close>

definition normalize :: "json \<Rightarrow> message result" where
  "normalize message =
     and_then (py_get message ''dataMessage'' (JObj [])) (\<lambda>data_message.
     and_then (py_get message ''username'' (JStr [])) (\<lambda>a_username.
     and_then (py_get message ''source'' (JStr [])) (\<lambda>a_source.
     and_then (py_get data_message ''body'' (JStr [])) (\<lambda>a_text.
     and_then (py_get message ''sourceDevice'' JNull) (\<lambda>a_source_device.
     and_then (py_get data_message ''timestamp'' JNull) (\<lambda>a_timestamp.
     and_then (py_get message ''timestampISO'' JNull) (\<lambda>a_timestamp_iso.
     and_then (py_get data_message ''group'' (JObj [])) (\<lambda>a_group_info.
     and_then (py_get data_message ''attachments'' (JArr [])) (\<lambda>listed.
     and_then (py_iter listed) (\<lambda>items.
     and_then (attachments_of items) (\<lambda>a_attachments.
       Inr \<lparr>username = a_username, source = a_source, text' = a_text,
            source_device = a_source_device, timestamp = a_timestamp,
            timestamp_iso = a_timestamp_iso, attachments = a_attachments,
            group_info = a_group_info, group_list = []\<rparr>)))))))))))"

text \<open>What lines 104 to 132 do with the object bound to \<open>message\<close>: skip it, raise, or
  yield a Message and leave \<open>message\<close> bound to the nested data.\<close>

datatype outcome = Skip | Raise error | Yield message json

definition handle_envelope :: "json \<Rightarrow> outcome" where
  "handle_envelope message =
     (case py_get message ''type'' JNull of
        Inl e \<Rightarrow> Raise e
      | Inr t \<Rightarrow>
          if t \<noteq> JStr ''message'' then Skip
          else (case py_item message ''data'' of
                  Inl e \<Rightarrow> Raise e
                | Inr d \<Rightarrow>
                    (case py_in ''typing'' d of
                       Inl e \<Rightarrow> Raise e
                     | Inr is_typing \<Rightarrow>
                         if is_typing then Skip
                         else (case normalize d of
                                 Inl e \<Rightarrow> Raise e
                               | Inr m \<Rightarrow> Yield m d))))"

text \<open>What the generator does that can be seen from outside, in order.\<close>

datatype event = Written payload | Printed string | Yielded message

fun emit :: "event list \<Rightarrow> event list \<times> error \<Rightarrow> event list \<times> error" where
  "emit es (xs, e) = (es @ xs, e)"

text \<open>
  The loop of \<open>receive_messages\<close> over the lines read. Its second argument is the local
  variable \<open>message\<close>, \<open>None\<close> while nothing is bound to it: the handler of
  JSONDecodeError prints and falls through to line 104 with the variable as the last
  iteration left it. The loop never ends by itself; the result is the events up to the
  exception that ends it, and that exception.
\<close>

fun receive_loop :: "parser \<Rightarrow> json option \<Rightarrow> string list \<Rightarrow> event list \<times> error" where
  "receive_loop loads message [] = ([], ConnectionResetError)"
| "receive_loop loads message (line # lines) =
     (case loads line of
        Inl e \<Rightarrow>
          if e = JSONDecodeError then
            (case message of
               None \<Rightarrow> ([Printed ''Invalid JSON''], UnboundLocalError)
             | Some v \<Rightarrow>
                 (case handle_envelope v of
                    Skip \<Rightarrow> emit [Printed ''Invalid JSON''] (receive_loop loads (Some v) lines)
                  | Raise e' \<Rightarrow> ([Printed ''Invalid JSON''], e')
                  | Yield m d \<Rightarrow>
                      emit [Printed ''Invalid JSON'', Yielded m]
                        (receive_loop loads (Some d) lines)))
          else ([], e)
      | Inr v \<Rightarrow>
          (case handle_envelope v of
             Skip \<Rightarrow> receive_loop loads (Some v) lines
           | Raise e' \<Rightarrow> ([], e')
           | Yield m d \<Rightarrow> emit [Yielded m] (receive_loop loads (Some d) lines)))"

definition receive_messages :: "parser \<Rightarrow> json \<Rightarrow> string \<Rightarrow> event list \<times> error" where
  "receive_messages loads user stream =
     emit [Written [(''type'', JStr ''subscribe''), (''username'', user)]]
       (receive_loop loads None (readlines [] stream))"

fun yielded :: "event list \<Rightarrow> message list" where
  "yielded [] = []"
| "yielded (Yielded m # es) = m # yielded es"
| "yielded (e # es) = yielded es"

section \<open>The chat dispatcher\<close>

text \<open>
  A registration is the triple \<open>(order, regex, func)\<close>. The regular-expression engine is
  a parameter: \<open>compile\<close> stands for \<open>re.compile(_, re.I)\<close> and \<open>search\<close> for
  \<open>re.search\<close> on a string, returning the match object if there is one. A handler
  either raises or returns an object; the dispatcher tells a tuple from anything else.
\<close>

datatype 'r pattern = Source string | Compiled 'r

datatype returned = Raised | Value json | Tuple "json list"

type_synonym ('r, 'm) registration = "int \<times> 'r \<times> (message \<Rightarrow> 'm \<Rightarrow> returned)"

text \<open>\<open>chat_handler(regex, order)(func)\<close>, on the list \<open>_chat_handlers\<close>. Python's
  \<open>list.sort\<close> is stable, and so is \<open>sort_key\<close>. The order is an integer, and a pattern
  that \<open>re.compile\<close> refuses raises before anything is registered, so \<open>compile\<close> is
  total on the patterns that are.\<close>

definition chat_handler ::
  "(string \<Rightarrow> 'r) \<Rightarrow> 'r pattern \<Rightarrow> int \<Rightarrow> (message \<Rightarrow> 'm \<Rightarrow> returned)
     \<Rightarrow> ('r, 'm) registration list \<Rightarrow> ('r, 'm) registration list" where
  "chat_handler compile regex order func chat_handlers =
     (let regex = (case regex of Compiled r \<Rightarrow> r | Source s \<Rightarrow> compile s)
      in sort_key fst (chat_handlers @ [(order, regex, func)]))"

text \<open>A run of registrations, each given as \<open>(regex, order, func)\<close>, from the empty list
  of a new client.\<close>

fun register_all ::
  "(string \<Rightarrow> 'r) \<Rightarrow> ('r pattern \<times> int \<times> (message \<Rightarrow> 'm \<Rightarrow> returned)) list
     \<Rightarrow> ('r, 'm) registration list \<Rightarrow> ('r, 'm) registration list" where
  "register_all compile [] chat_handlers = chat_handlers"
| "register_all compile ((regex, order, func) # rest) chat_handlers =
     register_all compile rest (chat_handler compile regex order func chat_handlers)"

text \<open>\<open>re.search(regex, message.text)\<close> wants a string.\<close>

fun re_search :: "('r \<Rightarrow> string \<Rightarrow> 'm option) \<Rightarrow> 'r \<Rightarrow> json \<Rightarrow> 'm option result" where
  "re_search search regex (JStr s) = Inr (search regex s)"
| "re_search search regex v = Inl TypeError"

text \<open>Lines 225 to 228: a tuple is unpacked into \<open>stop\<close> and \<open>reply\<close>, which fails
  unless it has two items; anything else is the reply, with \<open>stop = True\<close>.\<close>

fun unpack :: "returned \<Rightarrow> (json \<times> json) result" where
  "unpack (Tuple [stop, reply]) = Inr (stop, reply)"
| "unpack (Tuple xs) = Inl (ValueError ''unpack'')"
| "unpack (Value reply) = Inr (JBool True, reply)"
| "unpack Raised = Inl (ValueError ''unpack'')"

text \<open>
  The state of the dispatcher: the payloads written to command sockets, and, as a
  record of the run, the registrations whose pattern was searched, in the order they
  were.
\<close>

record ('r, 'm) chat =
  sent :: "payload list"
  tried :: "('r, 'm) registration list"

fun reply_with ::
  "(payload list \<Rightarrow> unit result \<times> payload list) \<Rightarrow> ('r, 'm) chat
     \<Rightarrow> unit result \<times> ('r, 'm) chat" where
  "reply_with send st = (case send (sent st) of (r, sent') \<Rightarrow> (r, st\<lparr>sent := sent'\<rparr>))"

text \<open>The inner loop of \<open>run_chat\<close> (lines 215 to 240) for one message.\<close>

fun dispatch ::
  "parser \<Rightarrow> daemon \<Rightarrow> ('r \<Rightarrow> string \<Rightarrow> 'm option) \<Rightarrow> json \<Rightarrow> message
     \<Rightarrow> ('r, 'm) registration list \<Rightarrow> ('r, 'm) chat \<Rightarrow> unit result \<times> ('r, 'm) chat" where
  "dispatch loads daemon search user message [] st = (Inr (), st)"
| "dispatch loads daemon search user message ((order, regex, func) # handlers) st =
     (let st = st\<lparr>tried := tried st @ [(order, regex, func)]\<rparr> in
      case re_search search regex (text' message) of
        Inl e \<Rightarrow> (Inl e, st)
      | Inr None \<Rightarrow> dispatch loads daemon search user message handlers st
      | Inr (Some match) \<Rightarrow>
          (case func message match of
             Raised \<Rightarrow> dispatch loads daemon search user message handlers st
           | reply \<Rightarrow>
               (case unpack reply of
                  Inl e \<Rightarrow> (Inl e, st)
                | Inr (stop, reply) \<Rightarrow>
                    (case py_get (group_info message) ''groupId'' JNull of
                       Inl e \<Rightarrow> (Inl e, st)
                     | Inr group_id \<Rightarrow>
                         (case (if truthy group_id
                                then reply_with
                                       (send_group_message loads daemon user group_id reply False) st
                                else reply_with
                                       (send_message loads daemon user (source message) reply True) st)
                          of
                            (Inl e, st) \<Rightarrow> (Inl e, st)
                          | (Inr u, st) \<Rightarrow>
                              if truthy stop then (Inr (), st)
                              else dispatch loads daemon search user message handlers st)))))"

text \<open>The outer loop, over the messages the generator yields.\<close>

fun run_loop ::
  "parser \<Rightarrow> daemon \<Rightarrow> ('r \<Rightarrow> string \<Rightarrow> 'm option) \<Rightarrow> json \<Rightarrow> ('r, 'm) registration list
     \<Rightarrow> message list \<Rightarrow> ('r, 'm) chat \<Rightarrow> unit result \<times> ('r, 'm) chat" where
  "run_loop loads daemon search user handlers [] st = (Inr (), st)"
| "run_loop loads daemon search user handlers (message # rest) st =
     (if \<not> truthy (text' message) then run_loop loads daemon search user handlers rest st
      else (case dispatch loads daemon search user message handlers st of
              (Inl e, st) \<Rightarrow> (Inl e, st)
            | (Inr u, st) \<Rightarrow> run_loop loads daemon search user handlers rest st))"

text \<open>
  \<open>run_chat\<close> on the bytes of the subscription socket: the messages are handled as
  they are yielded, and the loop ends with the first exception, of a message's handling
  or of the generator. The result is that exception and the final state.
\<close>

definition run_chat ::
  "parser \<Rightarrow> daemon \<Rightarrow> ('r \<Rightarrow> string \<Rightarrow> 'm option) \<Rightarrow> json \<Rightarrow> ('r, 'm) registration list
     \<Rightarrow> string \<Rightarrow> error \<times> ('r, 'm) chat" where
  "run_chat loads daemon search user handlers stream =
     (case receive_messages loads user stream of
        (events, stream_error) \<Rightarrow>
          (case run_loop loads daemon search user handlers (yielded events)
                  \<lparr>sent = [], tried = []\<rparr> of
             (Inl e, st) \<Rightarrow> (e, st)
           | (Inr u, st) \<Rightarrow> (stream_error, st)))"

section \<open>What the scan skips\<close>

text \<open>The two \<open>continue\<close>s of the scan, as a predicate on a line: it lacks the
  identifier, or it holds it and decodes to an object whose \<open>id\<close> is another value.\<close>

definition skipped :: "parser \<Rightarrow> string \<Rightarrow> string \<Rightarrow> bool" where
  "skipped loads msg_id line =
     (\<not> sublist msg_id line \<or>
      (case loads line of
         Inr (JObj kvs) \<Rightarrow> map_of kvs ''id'' \<noteq> Some (JStr msg_id)
       | _ \<Rightarrow> False))"

text \<open>The payload lines 231 to 236 write for a reply, when the \<open>n\<close>-th command of the
  run carries it: the group's if \<open>group_id\<close> is true, the sender's otherwise.\<close>

definition reply_payload :: "daemon \<Rightarrow> json \<Rightarrow> message \<Rightarrow> json \<Rightarrow> json \<Rightarrow> nat \<Rightarrow> payload" where
  "reply_payload daemon user message group_id reply n =
     (if truthy group_id
      then [(''type'', JStr ''send''), (''username'', user), (''recipientGroupId'', group_id),
            (''messageBody'', reply), (''id'', JStr (fst (daemon n)))]
      else [(''type'', JStr ''send''), (''username'', user),
            (''recipientAddress'', source message),
            (''messageBody'', reply), (''id'', JStr (fst (daemon n)))])"

text \<open>The triple a call of \<open>chat_handler\<close> appends, from its arguments.\<close>

definition entry ::
  "(string \<Rightarrow> 'r) \<Rightarrow> 'r pattern \<times> int \<times> (message \<Rightarrow> 'm \<Rightarrow> returned) \<Rightarrow> ('r, 'm) registration" where
  "entry compile reg =
     (case reg of (regex, order, func) \<Rightarrow>
        (order, (case regex of Compiled r \<Rightarrow> r | Source s \<Rightarrow> compile s), func))"

text \<open>
  Two predicates on a registration and a message, read off the inner loop of \<open>run_chat\<close>.
  \<open>handled\<close>: the search fails with an exception, or the pattern is found and the handler
  returns; only such a registration can end the loop before the list does. \<open>stopping\<close>:
  the search fails, or the pattern is found and the handler returns something that cannot
  be unpacked or whose \<open>stop\<close> is true; the loop never goes past such a registration.
\<close>

definition handled ::
  "('r \<Rightarrow> string \<Rightarrow> 'm option) \<Rightarrow> message \<Rightarrow> ('r, 'm) registration \<Rightarrow> bool" where
  "handled search message h =
     (case h of (order, regex, func) \<Rightarrow>
        (case re_search search regex (text' message) of
           Inl e \<Rightarrow> True
         | Inr None \<Rightarrow> False
         | Inr (Some match) \<Rightarrow> func message match \<noteq> Raised))"

definition stopping ::
  "('r \<Rightarrow> string \<Rightarrow> 'm option) \<Rightarrow> message \<Rightarrow> ('r, 'm) registration \<Rightarrow> bool" where
  "stopping search message h =
     (case h of (order, regex, func) \<Rightarrow>
        (case re_search search regex (text' message) of
           Inl e \<Rightarrow> True
         | Inr None \<Rightarrow> False
         | Inr (Some match) \<Rightarrow>
             func message match \<noteq> Raised \<and>
             (case unpack (func message match) of
                Inl e \<Rightarrow> True
              | Inr (stop, reply) \<Rightarrow> truthy stop)))"

section \<open>Example inputs\<close>

text \<open>A parser that knows the lines of a table and rejects every other line, to run
  the model on the lines below.\<close>

definition loads_of :: "(string \<times> json) list \<Rightarrow> parser" where
  "loads_of table s = (case map_of table s of None \<Rightarrow> Inl JSONDecodeError | Some v \<Rightarrow> Inr v)"

definition version_line :: string where
  \<open>version_line = ''{"type": "version", "data": {"name": "signald"}}''\<close>

definition version_object :: json where
  "version_object =
     JObj [(''type'', JStr ''version''), (''data'', JObj [(''name'', JStr ''signald'')])]"

definition error_line :: string where
  \<open>error_line = ''{"id": "a1b2c3d4e5", "type": "unexpected_error"}''\<close>

definition error_object :: json where
  "error_object = JObj [(''id'', JStr ''a1b2c3d4e5''), (''type'', JStr ''unexpected_error'')]"

definition other_line :: string where
  \<open>other_line = ''{"id": "zzza1b2c3d4e5", "type": "success"}''\<close>

definition other_object :: json where
  "other_object = JObj [(''id'', JStr ''zzza1b2c3d4e5''), (''type'', JStr ''success'')]"

text \<open>The start of a long answer, as a read of 4096 bytes can cut it.\<close>

definition cut_line :: string where
  \<open>cut_line = ''{"id": "a1b2c3d4e5", "type": "group_list", "data": {"groups": [''\<close>

definition success_line :: string where
  \<open>success_line = ''{"id": "a1b2c3d4e5", "type": "success"}''\<close>

definition success_object :: json where
  "success_object = JObj [(''id'', JStr ''a1b2c3d4e5''), (''type'', JStr ''success'')]"

definition loads0 :: parser where
  "loads0 = loads_of [(version_line, version_object), (error_line, error_object),
     (other_line, other_object), (success_line, success_object)]"

text \<open>A daemon that answers every command with a version line, the answer to another
  request and an \<open>unexpected_error\<close> for this one.\<close>

definition failing_daemon :: daemon where
  "failing_daemon n =
     (''a1b2c3d4e5'',
      version_line @ [newline] @ other_line @ [newline] @ error_line @ [newline])"

text \<open>Lines of the subscription stream: the message of the specification's scenario, an
  envelope of type \<open>message\<close> without \<open>data\<close>, and a line that is not JSON.\<close>

definition ping_line :: string where
  \<open>ping_line = ''{"type":"message","data":{"username":"u","source":"+15551234567","dataMessage":{"body":"ping","timestamp":42}}}''\<close>

definition ping_data :: json where
  "ping_data =
     JObj [(''username'', JStr ''u''), (''source'', JStr ''+15551234567''),
           (''dataMessage'', JObj [(''body'', JStr ''ping''), (''timestamp'', JInt 42)])]"

definition ping_object :: json where
  "ping_object = JObj [(''type'', JStr ''message''), (''data'', ping_data)]"

definition ping_message :: message where
  "ping_message =
     \<lparr>username = JStr ''u'', source = JStr ''+15551234567'', text' = JStr ''ping'',
      source_device = JNull, timestamp = JInt 42, timestamp_iso = JNull,
      attachments = [], group_info = JObj [], group_list = []\<rparr>"

definition nodata_line :: string where
  \<open>nodata_line = ''{"type": "message"}''\<close>

definition nodata_object :: json where
  "nodata_object = JObj [(''type'', JStr ''message'')]"

definition bad_line :: string where
  "bad_line = ''signald: not json''"

definition stream_loads :: parser where
  "stream_loads = loads_of [(ping_line, ping_object), (nodata_line, nodata_object)]"

definition bad_ping_stream :: string where
  "bad_ping_stream = bad_line @ [newline] @ ping_line @ [newline]"

definition ping_stream :: string where
  "ping_stream = ping_line @ [newline]"

text \<open>A search that finds a literal pattern anywhere in the text, handlers that raise,
  answer and echo without stopping, a daemon that confirms every command, the bot's number,
  the state of a new run, and the scenario's message sent from a group.\<close>

definition literal_search :: "string \<Rightarrow> string \<Rightarrow> unit option" where
  "literal_search regex s = (if sublist regex s then Some () else None)"

definition raising :: "message \<Rightarrow> unit \<Rightarrow> returned" where
  "raising message match = Raised"

definition pong :: "message \<Rightarrow> unit \<Rightarrow> returned" where
  "pong message match = Value (JStr ''pong'')"

definition echo :: "message \<Rightarrow> unit \<Rightarrow> returned" where
  "echo message match = Tuple [JBool False, text' message]"

definition ok_daemon :: daemon where
  "ok_daemon n = (''a1b2c3d4e5'', success_line @ [newline])"

definition bot :: json where
  "bot = JStr ''+15550000000''"

definition fresh :: "(string, unit) chat" where
  "fresh = \<lparr>sent = [], tried = []\<rparr>"

definition group_message :: "json \<Rightarrow> message" where
  "group_message g = ping_message\<lparr>group_info := JObj [(''groupId'', g)]\<rparr>"

text \<open>A daemon whose answer starts with a line that holds the identifier and is not
  JSON, before the \<open>unexpected_error\<close> for the request.\<close>

definition cut_error_daemon :: daemon where
  "cut_error_daemon n =
     (''a1b2c3d4e5'', cut_line @ [newline] @ error_line @ [newline])"

lemmas fixture_defs =
  loads0_def loads_of_def version_line_def version_object_def error_line_def
  error_object_def other_line_def other_object_def cut_line_def success_line_def
  success_object_def failing_daemon_def

lemmas run_defs =
  fresh_def pong_def [abs_def] raising_def [abs_def] echo_def [abs_def] group_message_def
  ping_message_def literal_search_def sublist_Cons_right

section \<open>The command client: blocking, errors and the scan\<close>

lemma send_command_eq:
  "send_command loads daemon payload block written =
     (if block
      then scan loads (fst (daemon (length written)))
             (split_on newline (take (4 * 1024) (snd (daemon (length written)))))
      else Inr JNull,
      written @ [AList.update ''id'' (JStr (fst (daemon (length written)))) payload])"
  by (simp add: send_command_def Let_def split: prod.splits)

lemma discard_eq: "discard x = (case fst x of Inl e \<Rightarrow> Inl e | Inr v \<Rightarrow> Inr (), snd x)"
  by (cases x rule: discard.cases) simp_all

lemma scan_skip:
  "skipped loads msg_id line \<Longrightarrow> scan loads msg_id (line # lines) = scan loads msg_id lines"
  by (auto simp: skipped_def split: sum.splits json.splits option.splits)

lemma scan_skip_all:
  "\<forall>l\<in>set pre. skipped loads msg_id l \<Longrightarrow>
   scan loads msg_id (pre @ rest) = scan loads msg_id rest"
  by (induction pre) (simp_all add: scan_skip del: scan.simps)

lemma scan_hit:
  "sublist msg_id line \<Longrightarrow> loads line = Inr (JObj kvs) \<Longrightarrow>
   map_of kvs ''id'' = Some (JStr msg_id) \<Longrightarrow>
   map_of kvs ''type'' = Some (JStr ''unexpected_error'') \<Longrightarrow>
   scan loads msg_id (line # lines) = Inl ProtocolError"
  by simp

lemma split_failing:
  "split_on newline (take (4 * 1024) (snd (failing_daemon 0))) =
     [version_line, other_line] @ error_line # ['''']"
  by (simp add: failing_daemon_def version_line_def other_line_def error_line_def newline_def)

lemma skipped_version: "skipped loads0 ''a1b2c3d4e5'' version_line"
  by (simp add: skipped_def version_line_def sublist_Cons_right)

lemma skipped_other: "skipped loads0 ''a1b2c3d4e5'' other_line"
  by (simp add: skipped_def fixture_defs)

text \<open>
  C3, as the code has it. \<open>register\<close> and \<open>verify\<close> call \<open>_send_command\<close> without
  \<open>block\<close>, whose default is false: each writes its command, with the identifier added
  last, and returns without reading an answer, so neither raises whatever the daemon
  answers.
\<close>

theorem register_verify_fire_and_forget:
  "register loads daemon user voice written =
     (Inr (), written @ [[(''type'', JStr ''register''), (''username'', user),
                          (''voice'', voice),
                          (''id'', JStr (fst (daemon (length written))))]]) \<and>
   verify loads daemon user code written =
     (Inr (), written @ [[(''type'', JStr ''verify''), (''username'', user),
                          (''code'', code),
                          (''id'', JStr (fst (daemon (length written))))]])"
  by (simp add: register_def verify_def send_command_def split: prod.splits)

text \<open>
  C3 as stated fails: against a daemon that answers \<open>unexpected_error\<close>, the
  blocking call of the register payload raises the protocol error, and \<open>register\<close> and
  \<open>verify\<close> return normally.
\<close>

theorem register_verify_blocking_counterexample:
  "fst (send_command loads0 failing_daemon
          [(''type'', JStr ''register''), (''username'', JStr ''+15551234567''),
           (''voice'', JBool False)] True []) = Inl ProtocolError \<and>
   fst (register loads0 failing_daemon (JStr ''+15551234567'') (JBool False) []) = Inr () \<and>
   fst (verify loads0 failing_daemon (JStr ''+15551234567'') (JStr ''123-456'') []) = Inr ()"
  using split_failing
  by (simp add: register_def verify_def send_command_def fixture_defs sublist_Cons_right)

text \<open>
  C4, as the code has it. A blocking call raises the protocol error when the scan of the
  lines read reaches the correlated envelope, that is, when every line before it is
  skipped, the line holds the identifier and decodes to an object with that \<open>id\<close>, and
  its type is \<open>unexpected_error\<close>. A call that does not block returns \<open>None\<close>,
  whatever the daemon sends.
\<close>

theorem send_command_protocol_error:
  "(daemon (length written) = (msg_id, response) \<and>
    split_on newline (take (4 * 1024) response) = pre @ line # post \<and>
    (\<forall>l\<in>set pre. skipped loads msg_id l) \<and>
    sublist msg_id line \<and> loads line = Inr (JObj kvs) \<and>
    map_of kvs ''id'' = Some (JStr msg_id) \<and>
    map_of kvs ''type'' = Some (JStr ''unexpected_error'')
    \<longrightarrow> fst (send_command loads daemon payload True written) = Inl ProtocolError)
   \<and> fst (send_command loads daemon payload False written) = Inr JNull"
proof (intro conjI impI)
  assume h: "daemon (length written) = (msg_id, response) \<and>
    split_on newline (take (4 * 1024) response) = pre @ line # post \<and>
    (\<forall>l\<in>set pre. skipped loads msg_id l) \<and>
    sublist msg_id line \<and> loads line = Inr (JObj kvs) \<and>
    map_of kvs ''id'' = Some (JStr msg_id) \<and>
    map_of kvs ''type'' = Some (JStr ''unexpected_error'')"
  then have "scan loads msg_id (pre @ line # post) = Inl ProtocolError"
    by (simp add: scan_skip_all scan_hit del: scan.simps)
  with h show "fst (send_command loads daemon payload True written) = Inl ProtocolError"
    by (simp add: send_command_def)
next
  show "fst (send_command loads daemon payload False written) = Inr JNull"
    by (simp add: send_command_def split: prod.splits)
qed

theorem send_command_protocol_error_witness:
  "fst (send_command loads0 failing_daemon [(''type'', JStr ''list_groups'')] True []) =
     Inl ProtocolError \<and>
   fst (send_command loads0 failing_daemon [(''type'', JStr ''list_groups'')] False []) =
     Inr JNull"
  using send_command_protocol_error [where daemon = failing_daemon and written = "[]"
      and msg_id = "''a1b2c3d4e5''" and response = "snd (failing_daemon 0)"
      and pre = "[version_line, other_line]" and line = error_line and post = "['''']"
      and loads = loads0
      and kvs = "[(''id'', JStr ''a1b2c3d4e5''), (''type'', JStr ''unexpected_error'')]"
      and payload = "[(''type'', JStr ''list_groups'')]"]
    split_failing skipped_version skipped_other
  by (simp add: fixture_defs sublist_Cons_right)

text \<open>
  C4 as stated fails: the answer to the request is an \<open>unexpected_error\<close> (scanned alone
  it raises the protocol error), but a line before it holds the identifier and is not
  JSON, and the blocking call ends with the parser's exception instead.
\<close>

theorem send_command_decode_error_counterexample:
  "scan loads0 ''a1b2c3d4e5'' [error_line] = Inl ProtocolError \<and>
   fst (send_command loads0 cut_error_daemon [(''type'', JStr ''list_groups'')] True []) =
     Inl JSONDecodeError"
  by (simp add: send_command_eq cut_error_daemon_def fixture_defs newline_def sublist_Cons_right)

text \<open>
  C8, as the code has it. A line without the identifier, and a line with it that decodes
  to an object whose \<open>id\<close> is another value, are skipped: the scan goes on with the
  next line. A line with the identifier that the parser rejects ends the call with the
  parser's exception.
\<close>

theorem scan_skips_line:
  "(skipped loads msg_id line \<longrightarrow>
      scan loads msg_id (line # lines) = scan loads msg_id lines) \<and>
   (sublist msg_id line \<and> loads line = Inl e \<longrightarrow>
      scan loads msg_id (line # lines) = Inl e)"
proof (intro conjI impI)
  assume "skipped loads msg_id line"
  then show "scan loads msg_id (line # lines) = scan loads msg_id lines"
    by (rule scan_skip)
next
  assume "sublist msg_id line \<and> loads line = Inl e"
  then show "scan loads msg_id (line # lines) = Inl e"
    by simp
qed

theorem scan_skips_line_witness:
  "scan loads0 ''a1b2c3d4e5'' (version_line # [other_line, success_line]) =
     scan loads0 ''a1b2c3d4e5'' [other_line, success_line] \<and>
   scan loads0 ''a1b2c3d4e5'' (other_line # [success_line]) =
     scan loads0 ''a1b2c3d4e5'' [success_line] \<and>
   scan loads0 ''a1b2c3d4e5'' [success_line] = Inr success_object \<and>
   scan loads0 ''a1b2c3d4e5'' (cut_line # [success_line]) = Inl JSONDecodeError"
  using scan_skips_line [where loads = loads0 and msg_id = "''a1b2c3d4e5''"
      and line = version_line and lines = "[other_line, success_line]"]
    scan_skips_line [where loads = loads0 and msg_id = "''a1b2c3d4e5''"
      and line = other_line and lines = "[success_line]"]
    scan_skips_line [where loads = loads0 and msg_id = "''a1b2c3d4e5''"
      and line = cut_line and lines = "[success_line]" and e = JSONDecodeError]
    skipped_version skipped_other
  by (simp add: fixture_defs sublist_Cons_right)

text \<open>
  C8 as stated fails: a line that holds the identifier and is not valid JSON is not
  skipped. The call fails on it, though the line after it is the answer.
\<close>

theorem scan_decode_error_counterexample:
  "scan loads0 ''a1b2c3d4e5'' [cut_line, success_line] = Inl JSONDecodeError"
  by (simp add: fixture_defs sublist_Cons_right)

section \<open>The message stream: malformed lines, defaults and missing data\<close>

lemma normalize_ping: "normalize ping_data = Inr ping_message"
  by (simp add: normalize_def ping_data_def ping_message_def)

lemma handle_ping: "handle_envelope ping_object = Yield ping_message ping_data"
  using normalize_ping by (simp add: handle_envelope_def ping_object_def) (simp add: ping_data_def)

lemma loads_ping: "stream_loads ping_line = Inr ping_object"
  by (simp add: stream_loads_def loads_of_def ping_line_def)

lemma loads_bad: "stream_loads bad_line = Inl JSONDecodeError"
  by (simp add: stream_loads_def loads_of_def ping_line_def bad_line_def nodata_line_def)

lemma loads_nodata: "stream_loads nodata_line = Inr nodata_object"
  by (simp add: stream_loads_def loads_of_def ping_line_def nodata_line_def)

lemma readlines_two: "readlines [] bad_ping_stream = [bad_line, ping_line]"
  by (simp add: bad_ping_stream_def bad_line_def ping_line_def newline_def)

lemma readlines_one: "readlines [] ping_stream = [ping_line]"
  by (simp add: ping_stream_def ping_line_def newline_def)

text \<open>
  C2 at a failing input. A line that is not JSON, first on the stream, is reported, and
  then line 104 reads the variable \<open>message\<close>, which nothing has bound: the generator
  ends with UnboundLocalError and the message after the bad line is never yielded.
  Without the bad line the same stream yields it.
\<close>

theorem receive_messages_malformed_first_line:
  "receive_messages stream_loads (JStr ''+15550000000'') bad_ping_stream =
     ([Written [(''type'', JStr ''subscribe''), (''username'', JStr ''+15550000000'')],
       Printed ''Invalid JSON''], UnboundLocalError) \<and>
   receive_messages stream_loads (JStr ''+15550000000'') ping_stream =
     ([Written [(''type'', JStr ''subscribe''), (''username'', JStr ''+15550000000'')],
       Yielded ping_message], ConnectionResetError)"
  by (simp add: receive_messages_def readlines_two readlines_one loads_bad loads_ping handle_ping)

text \<open>
  C7 at a failing input. The message of the specification's scenario has no
  \<open>sourceDevice\<close>; \<open>message.get("sourceDevice")\<close> is then \<open>None\<close>, which is passed to
  the constructor, so the default 0 of the class is not used.
\<close>

theorem receive_messages_source_device_none:
  "map source_device
     (yielded (fst (receive_messages stream_loads (JStr ''+15550000000'') ping_stream))) =
   [JNull]"
  by (simp add: receive_messages_def readlines_one loads_ping handle_ping)
     (simp add: ping_message_def)

text \<open>
  C10. A line that decodes to an object of type \<open>message\<close> without the key \<open>data\<close>
  ends the generator with a KeyError, wherever it stands in the stream: nothing is
  yielded for it and the lines after it are not read.
\<close>

theorem receive_loop_missing_data:
  "loads line = Inr (JObj kvs) \<Longrightarrow> map_of kvs ''type'' = Some (JStr ''message'') \<Longrightarrow>
   map_of kvs ''data'' = None \<Longrightarrow> receive_loop loads message (line # lines) = ([], KeyError)"
  by (simp add: handle_envelope_def)

theorem receive_loop_missing_data_witness:
  "receive_loop stream_loads None (nodata_line # [ping_line]) = ([], KeyError) \<and>
   receive_loop stream_loads None [ping_line] = ([Yielded ping_message], ConnectionResetError)"
  using receive_loop_missing_data [where loads = stream_loads and line = nodata_line
      and kvs = "[(''type'', JStr ''message'')]" and message = None and lines = "[ping_line]"]
  by (simp add: loads_nodata nodata_object_def loads_ping handle_ping)

section \<open>The dispatcher, one registration at a time\<close>

lemma reply_with_group:
  "reply_with (send_group_message loads daemon user gid reply False) st =
     (Inr (), st\<lparr>sent := sent st @
        [[(''type'', JStr ''send''), (''username'', user), (''recipientGroupId'', gid),
          (''messageBody'', reply), (''id'', JStr (fst (daemon (length (sent st)))))]]\<rparr>)"
  by (simp add: send_group_message_def send_command_eq discard_eq)

lemma reply_with_direct:
  "reply_with (send_message loads daemon user rcpt reply True) st =
     (case scan loads (fst (daemon (length (sent st))))
             (split_on newline (take (4 * 1024) (snd (daemon (length (sent st)))))) of
        Inl e \<Rightarrow> Inl e | Inr v \<Rightarrow> Inr (),
      st\<lparr>sent := sent st @
        [[(''type'', JStr ''send''), (''username'', user), (''recipientAddress'', rcpt),
          (''messageBody'', reply), (''id'', JStr (fst (daemon (length (sent st)))))]]\<rparr>)"
  by (simp add: send_message_def send_command_eq discard_eq)

lemma dispatch_Cons:
  "dispatch loads daemon search user message ((order, regex, func) # hs) st =
     (case re_search search regex (text' message) of
        Inl e \<Rightarrow> (Inl e, st\<lparr>tried := tried st @ [(order, regex, func)]\<rparr>)
      | Inr None \<Rightarrow>
          dispatch loads daemon search user message hs
            (st\<lparr>tried := tried st @ [(order, regex, func)]\<rparr>)
      | Inr (Some match) \<Rightarrow>
          if func message match = Raised
          then dispatch loads daemon search user message hs
                 (st\<lparr>tried := tried st @ [(order, regex, func)]\<rparr>)
          else (case unpack (func message match) of
                  Inl e \<Rightarrow> (Inl e, st\<lparr>tried := tried st @ [(order, regex, func)]\<rparr>)
                | Inr (stop, reply) \<Rightarrow>
                    (case py_get (group_info message) ''groupId'' JNull of
                       Inl e \<Rightarrow> (Inl e, st\<lparr>tried := tried st @ [(order, regex, func)]\<rparr>)
                     | Inr gid \<Rightarrow>
                         (case (if truthy gid
                                then reply_with
                                       (send_group_message loads daemon user gid reply False)
                                       (st\<lparr>tried := tried st @ [(order, regex, func)]\<rparr>)
                                else reply_with
                                       (send_message loads daemon user (source message) reply True)
                                       (st\<lparr>tried := tried st @ [(order, regex, func)]\<rparr>))
                          of
                            (Inl e, st2) \<Rightarrow> (Inl e, st2)
                          | (Inr u, st2) \<Rightarrow>
                              if truthy stop then (Inr (), st2)
                              else dispatch loads daemon search user message hs st2))))"
  by (simp add: Let_def del: reply_with.simps
        split: sum.split option.split returned.split)

lemma reply_with_state:
  "snd (reply_with (if truthy gid
               then send_group_message loads daemon user gid reply False
               else send_message loads daemon user (source message) reply True) st) =
   st\<lparr>sent := sent st @ [reply_payload daemon user message gid reply (length (sent st))]\<rparr>"
  by (cases "truthy gid")
     (simp_all add: reply_with_group reply_with_direct reply_payload_def del: reply_with.simps)

lemma if_reply_with:
  "(if b then reply_with f st else reply_with g st) = reply_with (if b then f else g) st"
  by simp

lemma dispatch_cases:
  fixes st :: "('r, 'm) chat" and h :: "('r, 'm) registration"
  obtains
    (raised) e where
      "dispatch loads daemon search user message (h # hs) st =
         (Inl e, st\<lparr>tried := tried st @ [h]\<rparr>)"
  | (passed)
      "dispatch loads daemon search user message (h # hs) st =
         dispatch loads daemon search user message hs (st\<lparr>tried := tried st @ [h]\<rparr>)"
  | (replied) r gid reply where
      "py_get (group_info message) ''groupId'' JNull = Inr gid"
      "dispatch loads daemon search user message (h # hs) st =
         (r, st\<lparr>tried := tried st @ [h],
               sent := sent st @
                 [reply_payload daemon user message gid reply (length (sent st))]\<rparr>)"
  | (went_on) gid reply where
      "py_get (group_info message) ''groupId'' JNull = Inr gid"
      "dispatch loads daemon search user message (h # hs) st =
         dispatch loads daemon search user message hs
           (st\<lparr>tried := tried st @ [h],
               sent := sent st @
                 [reply_payload daemon user message gid reply (length (sent st))]\<rparr>)"
proof -
  obtain order regex func where h: "h = (order, regex, func)" by (cases h)
  let ?st1 = "st\<lparr>tried := tried st @ [h]\<rparr>"
  show thesis
  proof (cases "re_search search regex (text' message)")
    case (Inl e)
    then show thesis using raised by (simp add: h dispatch_Cons del: dispatch.simps)
  next
    case found: (Inr found)
    show thesis
    proof (cases found)
      case None
      with found show thesis using passed by (simp add: h dispatch_Cons del: dispatch.simps)
    next
      case (Some match)
      show thesis
      proof (cases "func message match = Raised")
        case True
        with found Some show thesis
          using passed by (simp add: h dispatch_Cons del: dispatch.simps)
      next
        case False
        show thesis
        proof (cases "unpack (func message match)")
          case (Inl e)
          with found Some False show thesis
            using raised by (simp add: h dispatch_Cons del: dispatch.simps)
        next
          case unp: (Inr sr)
          obtain stop reply where sr: "sr = (stop, reply)" by (cases sr)
          show thesis
          proof (cases "py_get (group_info message) ''groupId'' JNull")
            case (Inl e)
            with found Some False unp sr show thesis
              using raised by (simp add: h dispatch_Cons del: dispatch.simps)
          next
            case gid: (Inr gid)
            let ?rw = "reply_with (if truthy gid
               then send_group_message loads daemon user gid reply False
               else send_message loads daemon user (source message) reply True) ?st1"
            let ?st2 = "st\<lparr>tried := tried st @ [h],
               sent := sent st @
                 [reply_payload daemon user message gid reply (length (sent st))]\<rparr>"
            obtain r st2 where rw: "?rw = (r, st2)" by (cases ?rw)
            have "snd ?rw = ?st2" by (simp add: reply_with_state del: reply_with.simps)
            with rw have st2: "st2 = ?st2" by simp
            have d: "dispatch loads daemon search user message (h # hs) st =
                (case (r, ?st2) of
                   (Inl e, st2) \<Rightarrow> (Inl e, st2)
                 | (Inr u, st2) \<Rightarrow> if truthy stop then (Inr (), st2)
                     else dispatch loads daemon search user message hs st2)"
              using found Some False unp sr gid rw [unfolded st2]
              by (simp add: h dispatch_Cons if_reply_with del: dispatch.simps reply_with.simps)
            show thesis
            proof (cases r)
              case (Inl e)
              with d have "dispatch loads daemon search user message (h # hs) st = (Inl e, ?st2)"
                by simp
              with gid show thesis using replied by blast
            next
              case (Inr u)
              show thesis
              proof (cases "truthy stop")
                case True
                with d Inr have "dispatch loads daemon search user message (h # hs) st =
                    (Inr (), ?st2)"
                  by simp
                with gid show thesis using replied by blast
              next
                case False
                with d Inr have "dispatch loads daemon search user message (h # hs) st =
                    dispatch loads daemon search user message hs ?st2"
                  by simp
                with gid show thesis using went_on by blast
              qed
            qed
          qed
        qed
      qed
    qed
  qed
qed

lemma dispatch_step:
  fixes st :: "('r, 'm) chat" and h :: "('r, 'm) registration"
  obtains
    (halted) r st' where
      "dispatch loads daemon search user message (h # hs) st = (r, st')"
      "tried st' = tried st @ [h]" "handled search message h"
      "stopping search message h \<or> (\<exists>e. r = Inl e)"
  | (continued) st' where
      "dispatch loads daemon search user message (h # hs) st =
         dispatch loads daemon search user message hs st'"
      "tried st' = tried st @ [h]" "\<not> stopping search message h"
proof -
  obtain order regex func where h: "h = (order, regex, func)" by (cases h)
  let ?st1 = "st\<lparr>tried := tried st @ [h]\<rparr>"
  have t1: "tried ?st1 = tried st @ [h]" by simp
  show thesis
  proof (cases "re_search search regex (text' message)")
    case (Inl e)
    then have "dispatch loads daemon search user message (h # hs) st = (Inl e, ?st1)"
      "handled search message h"
      by (simp_all add: h dispatch_Cons handled_def del: dispatch.simps)
    with t1 show thesis using halted by blast
  next
    case found: (Inr found)
    show thesis
    proof (cases found)
      case None
      with found have "dispatch loads daemon search user message (h # hs) st =
          dispatch loads daemon search user message hs ?st1" "\<not> stopping search message h"
        by (simp_all add: h dispatch_Cons stopping_def del: dispatch.simps)
      with t1 show thesis using continued by blast
    next
      case (Some match)
      show thesis
      proof (cases "func message match = Raised")
        case True
        with found Some have "dispatch loads daemon search user message (h # hs) st =
            dispatch loads daemon search user message hs ?st1" "\<not> stopping search message h"
          by (simp_all add: h dispatch_Cons stopping_def del: dispatch.simps)
        with t1 show thesis using continued by blast
      next
        case False
        with found Some have hd: "handled search message h"
          by (simp add: h handled_def)
        show thesis
        proof (cases "unpack (func message match)")
          case (Inl e)
          with found Some False
          have "dispatch loads daemon search user message (h # hs) st = (Inl e, ?st1)"
            by (simp add: h dispatch_Cons del: dispatch.simps)
          with t1 hd show thesis using halted by blast
        next
          case unp: (Inr sr)
          obtain stop reply where sr: "sr = (stop, reply)" by (cases sr)
          show thesis
          proof (cases "py_get (group_info message) ''groupId'' JNull")
            case (Inl e)
            with found Some False unp sr
            have "dispatch loads daemon search user message (h # hs) st = (Inl e, ?st1)"
              by (simp add: h dispatch_Cons del: dispatch.simps)
            with t1 hd show thesis using halted by blast
          next
            case gid: (Inr gid)
            let ?rw = "reply_with (if truthy gid
               then send_group_message loads daemon user gid reply False
               else send_message loads daemon user (source message) reply True) ?st1"
            let ?st2 = "st\<lparr>tried := tried st @ [h],
               sent := sent st @
                 [reply_payload daemon user message gid reply (length (sent st))]\<rparr>"
            have t2: "tried ?st2 = tried st @ [h]" by simp
            obtain r st2 where rw: "?rw = (r, st2)" by (cases ?rw)
            have "snd ?rw = ?st2" by (simp add: reply_with_state del: reply_with.simps)
            with rw have st2: "st2 = ?st2" by simp
            have d: "dispatch loads daemon search user message (h # hs) st =
                (case (r, ?st2) of
                   (Inl e, st2) \<Rightarrow> (Inl e, st2)
                 | (Inr u, st2) \<Rightarrow> if truthy stop then (Inr (), st2)
                     else dispatch loads daemon search user message hs st2)"
              using found Some False unp sr gid rw [unfolded st2]
              by (simp add: h dispatch_Cons if_reply_with del: dispatch.simps reply_with.simps)
            show thesis
            proof (cases r)
              case (Inl e)
              with d have "dispatch loads daemon search user message (h # hs) st = (Inl e, ?st2)"
                by simp
              with t2 hd show thesis using halted by blast
            next
              case (Inr u)
              show thesis
              proof (cases "truthy stop")
                case True
                with d Inr have "dispatch loads daemon search user message (h # hs) st =
                    (Inr (), ?st2)"
                  by simp
                moreover from found Some False unp sr True
                have "stopping search message h"
                  by (simp add: h stopping_def)
                ultimately show thesis using t2 hd halted by blast
              next
                case nstop: False
                with d Inr have "dispatch loads daemon search user message (h # hs) st =
                    dispatch loads daemon search user message hs ?st2"
                  by simp
                moreover from found Some False unp sr nstop
                have "\<not> stopping search message h"
                  by (simp add: h stopping_def)
                ultimately show thesis using t2 continued by blast
              qed
            qed
          qed
        qed
      qed
    qed
  qed
qed

lemma dispatch_order:
  "\<exists>n\<le>length hs.
     tried (snd (dispatch loads daemon search user message hs st)) = tried st @ take n hs \<and>
     (n = length hs \<or>
      (0 < n \<and> handled search message (hs ! (n - 1)) \<and>
       (stopping search message (hs ! (n - 1)) \<or>
        (\<exists>e. fst (dispatch loads daemon search user message hs st) = Inl e)))) \<and>
     (\<forall>i. Suc i < n \<longrightarrow> \<not> stopping search message (hs ! i))"
proof (induction hs arbitrary: st)
  case Nil
  then show ?case by simp
next
  case (Cons h hs)
  show ?case
  proof (cases rule: dispatch_step [of loads daemon search user message h hs st])
    case (halted r st')
    then have "Suc 0 \<le> length (h # hs) \<and>
        tried (snd (dispatch loads daemon search user message (h # hs) st)) =
          tried st @ take (Suc 0) (h # hs) \<and>
        (Suc 0 = length (h # hs) \<or>
         (0 < Suc 0 \<and> handled search message ((h # hs) ! (Suc 0 - 1)) \<and>
          (stopping search message ((h # hs) ! (Suc 0 - 1)) \<or>
           (\<exists>e. fst (dispatch loads daemon search user message (h # hs) st) = Inl e)))) \<and>
        (\<forall>i. Suc i < Suc 0 \<longrightarrow> \<not> stopping search message ((h # hs) ! i))"
      by simp
    then show ?thesis by blast
  next
    case (continued st')
    from Cons.IH [of st'] obtain n where n: "n \<le> length hs"
      "tried (snd (dispatch loads daemon search user message hs st')) = tried st' @ take n hs"
      "n = length hs \<or>
       (0 < n \<and> handled search message (hs ! (n - 1)) \<and>
        (stopping search message (hs ! (n - 1)) \<or>
         (\<exists>e. fst (dispatch loads daemon search user message hs st') = Inl e)))"
      "\<forall>i. Suc i < n \<longrightarrow> \<not> stopping search message (hs ! i)"
      by blast
    have a: "Suc n \<le> length (h # hs)" using n(1) by simp
    have b: "tried (snd (dispatch loads daemon search user message (h # hs) st)) =
        tried st @ take (Suc n) (h # hs)"
      using n(2) continued(1,2) by simp
    have c: "Suc n = length (h # hs) \<or>
        (0 < Suc n \<and> handled search message ((h # hs) ! (Suc n - 1)) \<and>
         (stopping search message ((h # hs) ! (Suc n - 1)) \<or>
          (\<exists>e. fst (dispatch loads daemon search user message (h # hs) st) = Inl e)))"
      using n(3) continued(1) by (cases n) auto
    have d: "\<forall>i. Suc i < Suc n \<longrightarrow> \<not> stopping search message ((h # hs) ! i)"
    proof (intro allI impI)
      fix i assume i: "Suc i < Suc n"
      show "\<not> stopping search message ((h # hs) ! i)"
      proof (cases i)
        case 0
        with continued(3) show ?thesis by simp
      next
        case (Suc j)
        with i n(4) show ?thesis by simp
      qed
    qed
    from a b c d show ?thesis by blast
  qed
qed

lemma search_ping: "re_search literal_search ''ping'' (text' ping_message) = Inr (Some ())"
  by (simp add: ping_message_def literal_search_def sublist_Cons_right)

lemma scan_ok_daemon:
  "scan loads0 (fst (ok_daemon n)) (split_on newline (take 4096 (snd (ok_daemon n)))) =
     Inr success_object"
  by (simp add: ok_daemon_def fixture_defs newline_def sublist_Cons_right)

lemma direct_ok:
  "reply_with (send_message loads0 ok_daemon user rcpt reply True) st =
     (Inr (), st\<lparr>sent := sent st @
        [[(''type'', JStr ''send''), (''username'', user), (''recipientAddress'', rcpt),
          (''messageBody'', reply), (''id'', JStr ''a1b2c3d4e5'')]]\<rparr>)"
  by (simp add: reply_with_direct scan_ok_daemon del: reply_with.simps scan.simps)
     (simp add: ok_daemon_def)

lemma group_ok:
  "reply_with (send_group_message loads0 ok_daemon user gid reply False) st =
     (Inr (), st\<lparr>sent := sent st @
        [[(''type'', JStr ''send''), (''username'', user), (''recipientGroupId'', gid),
          (''messageBody'', reply), (''id'', JStr ''a1b2c3d4e5'')]]\<rparr>)"
  by (simp add: reply_with_group del: reply_with.simps) (simp add: ok_daemon_def)

lemma dispatch_raised:
  "re_search search regex (text' message) = Inr (Some match) \<Longrightarrow> func message match = Raised \<Longrightarrow>
   dispatch loads daemon search user message ((order, regex, func) # hs) st =
   dispatch loads daemon search user message hs (st\<lparr>tried := tried st @ [(order, regex, func)]\<rparr>)"
  by (simp add: dispatch_Cons del: dispatch.simps)

lemma dispatch_all_raise:
  "text' message = JStr s \<Longrightarrow>
   \<forall>h\<in>set hs. (case h of (order, regex, func) \<Rightarrow>
      (case search regex s of None \<Rightarrow> True | Some match \<Rightarrow> func message match = Raised)) \<Longrightarrow>
   dispatch loads daemon search user message hs st = (Inr (), st\<lparr>tried := tried st @ hs\<rparr>)"
proof (induction hs arbitrary: st)
  case Nil
  then show ?case by simp
next
  case (Cons h hs)
  obtain order regex func where h: "h = (order, regex, func)" by (cases h)
  from Cons.prems have hd: "case search regex s of None \<Rightarrow> True | Some match \<Rightarrow> func message match = Raised"
    by (simp add: h)
  from Cons.prems have tl: "\<forall>h\<in>set hs. (case h of (order, regex, func) \<Rightarrow>
      (case search regex s of None \<Rightarrow> True | Some match \<Rightarrow> func message match = Raised))"
    by simp
  have "dispatch loads daemon search user message (h # hs) st =
      dispatch loads daemon search user message hs (st\<lparr>tried := tried st @ [h]\<rparr>)"
    using hd Cons.prems(1) by (simp add: h dispatch_Cons del: dispatch.simps split: option.splits)
  also have "\<dots> = (Inr (), st\<lparr>tried := tried st @ [h], tried := (tried st @ [h]) @ hs\<rparr>)"
    using Cons.IH [OF Cons.prems(1) tl, of "st\<lparr>tried := tried st @ [h]\<rparr>"] by simp
  finally show ?case by simp
qed

text \<open>
  C1, as the code has it. The \<open>continue\<close> of the exception handler belongs to the loop
  over the registrations: a handler that raises sends nothing and the next registration
  is tried on the same message. When every registration that matches raises, nothing is
  sent for the message and the outer loop goes on with the next one.
\<close>

theorem handler_raises_next_registration:
  "(re_search search regex (text' message) = Inr (Some match) \<and> func message match = Raised \<longrightarrow>
      dispatch loads daemon search user message ((order, regex, func) # hs) st =
      dispatch loads daemon search user message hs
        (st\<lparr>tried := tried st @ [(order, regex, func)]\<rparr>)) \<and>
   (text' message = JStr s \<and> s \<noteq> [] \<and>
    (\<forall>h\<in>set hs. case h of (order, regex, func) \<Rightarrow>
       (case search regex s of None \<Rightarrow> True | Some match \<Rightarrow> func message match = Raised)) \<longrightarrow>
      run_loop loads daemon search user hs (message # rest) st =
      run_loop loads daemon search user hs rest (st\<lparr>tried := tried st @ hs\<rparr>))"
proof (intro conjI impI)
  assume "re_search search regex (text' message) = Inr (Some match) \<and> func message match = Raised"
  then show "dispatch loads daemon search user message ((order, regex, func) # hs) st =
      dispatch loads daemon search user message hs
        (st\<lparr>tried := tried st @ [(order, regex, func)]\<rparr>)"
    by (simp add: dispatch_raised del: dispatch.simps)
next
  assume a: "text' message = JStr s \<and> s \<noteq> [] \<and>
    (\<forall>h\<in>set hs. case h of (order, regex, func) \<Rightarrow>
       (case search regex s of None \<Rightarrow> True | Some match \<Rightarrow> func message match = Raised))"
  then have "dispatch loads daemon search user message hs st =
      (Inr (), st\<lparr>tried := tried st @ hs\<rparr>)"
    by (intro dispatch_all_raise) auto
  with a show "run_loop loads daemon search user hs (message # rest) st =
      run_loop loads daemon search user hs rest (st\<lparr>tried := tried st @ hs\<rparr>)"
    by simp
qed

theorem handler_raises_next_registration_witness:
  "dispatch loads0 ok_daemon literal_search bot ping_message
     ((1, ''ping'', raising) # [(2, ''ping'', pong)]) fresh =
   dispatch loads0 ok_daemon literal_search bot ping_message [(2, ''ping'', pong)]
     (fresh\<lparr>tried := tried fresh @ [(1, ''ping'', raising)]\<rparr>) \<and>
   run_loop loads0 ok_daemon literal_search bot [(1, ''ping'', raising), (2, ''pong'', pong)]
     (ping_message # []) fresh =
   (Inr (), \<lparr>sent = [], tried = [(1, ''ping'', raising), (2, ''pong'', pong)]\<rparr>)"
  using handler_raises_next_registration [where search = literal_search and regex = "''ping''"
      and message = ping_message and match = "()" and func = raising and loads = loads0
      and daemon = ok_daemon and user = bot and order = 1 and hs = "[(2, ''ping'', pong)]"
      and st = fresh]
    handler_raises_next_registration [where search = literal_search
      and message = ping_message and s = "''ping''" and loads = loads0
      and daemon = ok_daemon and user = bot
      and hs = "[(1, ''ping'', raising), (2, ''pong'', pong)]" and rest = "[]" and st = fresh]
  by (simp add: search_ping raising_def literal_search_def sublist_Cons_right fresh_def
        del: dispatch.simps) (simp add: ping_message_def)

text \<open>
  C1 as stated fails: the first handler raises, the second registration is still
  evaluated against the same message, and its reply is sent.
\<close>

theorem handler_raises_counterexample:
  "dispatch loads0 ok_daemon literal_search bot ping_message
     [(1, ''ping'', raising), (2, ''ping'', pong)] fresh =
   (Inr (),
    \<lparr>sent = [[(''type'', JStr ''send''), (''username'', bot),
               (''recipientAddress'', JStr ''+15551234567''),
               (''messageBody'', JStr ''pong''), (''id'', JStr ''a1b2c3d4e5'')]],
     tried = [(1, ''ping'', raising), (2, ''ping'', pong)]\<rparr>)"
  by (simp add: dispatch_Cons direct_ok fresh_def raising_def [abs_def] pong_def [abs_def]
        ping_message_def literal_search_def sublist_Cons_right
        del: dispatch.simps(2) reply_with.simps)

section \<open>The order of the registrations\<close>

lemma chat_handler_entry:
  "chat_handler compile regex order func hs = sort_key fst (hs @ [entry compile (regex, order, func)])"
  by (simp add: chat_handler_def entry_def)

lemma register_all_sorted:
  "sorted (map fst hs) \<Longrightarrow> sorted (map fst (register_all compile regs hs))"
proof (induction regs arbitrary: hs)
  case Nil
  then show ?case by simp
next
  case (Cons reg regs)
  obtain regex order func where reg: "reg = (regex, order, func)" by (cases reg)
  have "sorted (map fst (chat_handler compile regex order func hs))"
    by (simp add: chat_handler_entry del: sort_key_simps)
  from Cons.IH [OF this] show ?case by (simp add: reg)
qed

lemma register_all_stable:
  "filter (\<lambda>h. fst h = k) (register_all compile regs hs) =
   filter (\<lambda>h. fst h = k) (hs @ map (entry compile) regs)"
proof (induction regs arbitrary: hs)
  case Nil
  then show ?case by simp
next
  case (Cons reg regs)
  obtain regex order func where reg: "reg = (regex, order, func)" by (cases reg)
  have "filter (\<lambda>h. fst h = k) (register_all compile (reg # regs) hs) =
      filter (\<lambda>h. fst h = k) (chat_handler compile regex order func hs @ map (entry compile) regs)"
    using Cons.IH [of "chat_handler compile regex order func hs"] by (simp add: reg)
  also have "\<dots> = filter (\<lambda>h. fst h = k) (sort_key fst (hs @ [entry compile reg])) @
      filter (\<lambda>h. fst h = k) (map (entry compile) regs)"
    by (simp add: chat_handler_entry reg del: sort_key_simps)
  also have "filter (\<lambda>h. fst h = k) (sort_key fst (hs @ [entry compile reg])) =
      filter (\<lambda>h. fst h = k) (hs @ [entry compile reg])"
    by (rule sort_key_stable)
  finally show ?case by simp
qed

text \<open>
  C5. After any run of registrations on a new client the list is sorted by \<open>order\<close> and
  the registrations of one order stand in the sequence they were registered in. For a
  message, \<open>run_chat\<close> searches the registrations in exactly that order: the ones
  searched are the first \<open>n\<close> of the list, the loop goes past none that stops it, and it
  ends before the end of the list only at a registration that was handled and that stops
  it, or with an exception. So of two
  registrations with the same order, the one registered first is tried first.
\<close>

theorem chat_handlers_sorted_stable:
  "sorted (map fst (register_all compile regs [])) \<and>
   (\<forall>k. filter (\<lambda>h. fst h = k) (register_all compile regs []) =
        filter (\<lambda>h. fst h = k) (map (entry compile) regs)) \<and>
   (\<exists>n\<le>length (register_all compile regs []).
      tried (snd (dispatch loads daemon search user message (register_all compile regs []) st)) =
        tried st @ take n (register_all compile regs []) \<and>
      (n = length (register_all compile regs []) \<or>
       (0 < n \<and> handled search message (register_all compile regs [] ! (n - 1)) \<and>
        (stopping search message (register_all compile regs [] ! (n - 1)) \<or>
         (\<exists>e. fst (dispatch loads daemon search user message
                        (register_all compile regs []) st) = Inl e)))) \<and>
      (\<forall>i. Suc i < n \<longrightarrow> \<not> stopping search message (register_all compile regs [] ! i)))"
  using register_all_sorted [of "[]" compile regs]
    register_all_stable [of _ compile regs "[]"]
    dispatch_order [of "register_all compile regs []" loads daemon search user message st]
  by simp

lemma registered_example:
  "register_all (\<lambda>s. s)
     [(Source ''pin'', 100, echo), (Source ''ing'', 100, pong), (Compiled ''zzz'', 10, raising)] [] =
   [(10, ''zzz'', raising), (100, ''pin'', echo), (100, ''ing'', pong)]"
  by (simp add: chat_handler_def)

theorem chat_handlers_sorted_stable_witness:
  "register_all (\<lambda>s. s)
     [(Source ''pin'', 100, echo), (Source ''ing'', 100, pong), (Compiled ''zzz'', 10, raising)] [] =
   [(10, ''zzz'', raising), (100, ''pin'', echo), (100, ''ing'', pong)] \<and>
   dispatch loads0 ok_daemon literal_search bot ping_message
     (register_all (\<lambda>s. s)
        [(Source ''pin'', 100, echo), (Source ''ing'', 100, pong), (Compiled ''zzz'', 10, raising)] [])
     fresh =
   (Inr (),
    \<lparr>sent = [[(''type'', JStr ''send''), (''username'', bot),
               (''recipientAddress'', JStr ''+15551234567''),
               (''messageBody'', JStr ''ping''), (''id'', JStr ''a1b2c3d4e5'')],
              [(''type'', JStr ''send''), (''username'', bot),
               (''recipientAddress'', JStr ''+15551234567''),
               (''messageBody'', JStr ''pong''), (''id'', JStr ''a1b2c3d4e5'')]],
     tried = [(10, ''zzz'', raising), (100, ''pin'', echo), (100, ''ing'', pong)]\<rparr>)"
proof -
  have r: "register_all (\<lambda>s. s)
     [(Source ''pin'', 100, echo), (Source ''ing'', 100, pong), (Compiled ''zzz'', 10, raising)] [] =
     [(10, ''zzz'', raising), (100, ''pin'', echo), (100, ''ing'', pong)]"
    by (rule registered_example)
  have d: "dispatch loads0 ok_daemon literal_search bot ping_message
     (register_all (\<lambda>s. s)
        [(Source ''pin'', 100, echo), (Source ''ing'', 100, pong), (Compiled ''zzz'', 10, raising)] [])
     fresh =
     (Inr (),
      \<lparr>sent = [[(''type'', JStr ''send''), (''username'', bot),
               (''recipientAddress'', JStr ''+15551234567''),
               (''messageBody'', JStr ''ping''), (''id'', JStr ''a1b2c3d4e5'')],
              [(''type'', JStr ''send''), (''username'', bot),
               (''recipientAddress'', JStr ''+15551234567''),
               (''messageBody'', JStr ''pong''), (''id'', JStr ''a1b2c3d4e5'')]],
       tried = [(10, ''zzz'', raising), (100, ''pin'', echo), (100, ''ing'', pong)]\<rparr>)"
    unfolding r
    by (simp add: dispatch_Cons direct_ok group_ok run_defs
        del: dispatch.simps(2) reply_with.simps)
  show ?thesis
    using chat_handlers_sorted_stable [where compile = "\<lambda>s. s"
      and regs = "[(Source ''pin'', 100, echo), (Source ''ing'', 100, pong), (Compiled ''zzz'', 10, raising)]"
      and loads = loads0 and daemon = ok_daemon and search = literal_search and user = bot
      and message = ping_message and st = fresh]
    by (intro conjI r d)
qed

section \<open>Where a reply goes\<close>

lemma dispatch_sent:
  "\<exists>more. sent (snd (dispatch loads daemon search user message hs st)) = sent st @ more \<and>
     (\<forall>p\<in>set more. \<exists>gid reply n.
        py_get (group_info message) ''groupId'' JNull = Inr gid \<and>
        p = reply_payload daemon user message gid reply n)"
proof (induction hs arbitrary: st)
  case Nil
  then show ?case by simp
next
  case (Cons h hs)
  let ?R = "\<lambda>p. \<exists>gid reply n.
        py_get (group_info message) ''groupId'' JNull = Inr gid \<and>
        p = reply_payload daemon user message gid reply n"
  show ?case
  proof (cases rule: dispatch_cases [of loads daemon search user message h hs st])
    case (raised e)
    then have "sent (snd (dispatch loads daemon search user message (h # hs) st)) = sent st @ [] \<and>
        (\<forall>p\<in>set []. ?R p)" by simp
    then show ?thesis by blast
  next
    case passed
    from Cons.IH [of "st\<lparr>tried := tried st @ [h]\<rparr>"] show ?thesis
      unfolding passed by simp
  next
    case (replied r gid reply)
    then have "sent (snd (dispatch loads daemon search user message (h # hs) st)) =
        sent st @ [reply_payload daemon user message gid reply (length (sent st))] \<and>
        (\<forall>p\<in>set [reply_payload daemon user message gid reply (length (sent st))]. ?R p)"
      by auto
    then show ?thesis by blast
  next
    case (went_on gid reply)
    let ?p = "reply_payload daemon user message gid reply (length (sent st))"
    let ?st2 = "st\<lparr>tried := tried st @ [h], sent := sent st @ [?p]\<rparr>"
    from Cons.IH [of ?st2] obtain more where
      m: "sent (snd (dispatch loads daemon search user message hs ?st2)) = sent ?st2 @ more"
        "\<forall>p\<in>set more. ?R p" by blast
    from m went_on have "sent (snd (dispatch loads daemon search user message (h # hs) st)) =
        sent st @ (?p # more) \<and> (\<forall>p\<in>set (?p # more). ?R p)"
      by auto
    then show ?thesis by blast
  qed
qed

lemma dispatch_replied:
  assumes "re_search search regex (text' message) = Inr (Some match)"
    and "func message match \<noteq> Raised"
    and "unpack (func message match) = Inr (stop, reply)"
    and gid: "py_get (group_info message) ''groupId'' JNull = Inr gid"
  shows "\<exists>more. sent (snd (dispatch loads daemon search user message
                               ((order, regex, func) # hs) st)) =
            sent st @ reply_payload daemon user message gid reply (length (sent st)) # more \<and>
          (\<forall>p\<in>set more. \<exists>reply' n. p = reply_payload daemon user message gid reply' n)"
proof -
  let ?h = "(order, regex, func)"
  let ?p = "reply_payload daemon user message gid reply (length (sent st))"
  let ?st1 = "st\<lparr>tried := tried st @ [?h]\<rparr>"
  let ?st2 = "st\<lparr>tried := tried st @ [?h], sent := sent st @ [?p]\<rparr>"
  let ?rw = "reply_with (if truthy gid
               then send_group_message loads daemon user gid reply False
               else send_message loads daemon user (source message) reply True) ?st1"
  obtain r st2 where rw: "?rw = (r, st2)" by (cases ?rw)
  have "snd ?rw = ?st2" by (simp add: reply_with_state del: reply_with.simps)
  with rw have rw2: "?rw = (r, ?st2)" by simp
  have d: "dispatch loads daemon search user message (?h # hs) st =
      (case (r, ?st2) of
         (Inl e, st2) \<Rightarrow> (Inl e, st2)
       | (Inr u, st2) \<Rightarrow> if truthy stop then (Inr (), st2)
           else dispatch loads daemon search user message hs st2)"
    using assms rw2
    by (simp add: dispatch_Cons if_reply_with del: dispatch.simps reply_with.simps)
  from dispatch_sent [of loads daemon search user message hs ?st2] gid obtain more where
    m: "sent (snd (dispatch loads daemon search user message hs ?st2)) = sent ?st2 @ more"
      "\<forall>p\<in>set more. \<exists>reply' n. p = reply_payload daemon user message gid reply' n"
    by auto
  have "sent (snd (dispatch loads daemon search user message (?h # hs) st)) = sent st @ ?p # [] \<or>
      sent (snd (dispatch loads daemon search user message (?h # hs) st)) = sent st @ ?p # more"
    using d m(1) by (cases r) auto
  with m(2) show ?thesis by fastforce
qed

lemma group_payload_keys:
  "truthy gid \<Longrightarrow> p = reply_payload daemon user message gid reply n \<Longrightarrow>
   map_of p ''recipientGroupId'' = Some gid \<and> map_of p ''recipientAddress'' = None"
  by (simp add: reply_payload_def)

lemma direct_payload_keys:
  "\<not> truthy gid \<Longrightarrow> p = reply_payload daemon user message gid reply n \<Longrightarrow>
   map_of p ''recipientAddress'' = Some (source message) \<and> map_of p ''recipientGroupId'' = None"
  by (simp add: reply_payload_def)

lemma routed_to_group:
  assumes "re_search search regex (text' message) = Inr (Some match)"
    and "func message match \<noteq> Raised"
    and "unpack (func message match) = Inr (stop, reply)"
    and "group_info message = JObj g" and "map_of g ''groupId'' = Some gid" and t: "truthy gid"
  shows "\<exists>more. sent (snd (dispatch loads daemon search user message
                               ((order, regex, func) # hs) st)) =
            sent st @
            [(''type'', JStr ''send''), (''username'', user), (''recipientGroupId'', gid),
             (''messageBody'', reply), (''id'', JStr (fst (daemon (length (sent st)))))] # more \<and>
          (\<forall>p\<in>set more. map_of p ''recipientGroupId'' = Some gid \<and>
                          map_of p ''recipientAddress'' = None)"
proof -
  from assms have "py_get (group_info message) ''groupId'' JNull = Inr gid" by simp
  from dispatch_replied [where func = func and match = match and loads = loads
      and daemon = daemon and user = user and order = order and hs = hs and st = st,
      OF assms(1-3) this]
  obtain more where
    m: "sent (snd (dispatch loads daemon search user message ((order, regex, func) # hs) st)) =
          sent st @ reply_payload daemon user message gid reply (length (sent st)) # more"
       "\<forall>p\<in>set more. \<exists>reply' n. p = reply_payload daemon user message gid reply' n"
    by blast
  from m(2) t have "\<forall>p\<in>set more. map_of p ''recipientGroupId'' = Some gid \<and>
      map_of p ''recipientAddress'' = None"
    using group_payload_keys by blast
  with m(1) t show ?thesis by (simp add: reply_payload_def)
qed

lemma routed_to_source:
  assumes "re_search search regex (text' message) = Inr (Some match)"
    and "func message match \<noteq> Raised"
    and "unpack (func message match) = Inr (stop, reply)"
    and gid: "py_get (group_info message) ''groupId'' JNull = Inr gid" and t: "\<not> truthy gid"
  shows "\<exists>more. sent (snd (dispatch loads daemon search user message
                               ((order, regex, func) # hs) st)) =
            sent st @
            [(''type'', JStr ''send''), (''username'', user),
             (''recipientAddress'', source message),
             (''messageBody'', reply), (''id'', JStr (fst (daemon (length (sent st)))))] # more \<and>
          (\<forall>p\<in>set more. map_of p ''recipientAddress'' = Some (source message) \<and>
                          map_of p ''recipientGroupId'' = None)"
proof -
  from dispatch_replied [where func = func and match = match and loads = loads
      and daemon = daemon and user = user and order = order and hs = hs and st = st,
      OF assms(1-3) gid]
  obtain more where
    m: "sent (snd (dispatch loads daemon search user message ((order, regex, func) # hs) st)) =
          sent st @ reply_payload daemon user message gid reply (length (sent st)) # more"
       "\<forall>p\<in>set more. \<exists>reply' n. p = reply_payload daemon user message gid reply' n"
    by blast
  from m(2) t have "\<forall>p\<in>set more. map_of p ''recipientAddress'' = Some (source message) \<and>
      map_of p ''recipientGroupId'' = None"
    using direct_payload_keys by blast
  with m(1) t show ?thesis by (simp add: reply_payload_def)
qed


text \<open>
  C6, as the code has it. When the registration at the head matches and its handler
  returns a reply: if \<open>group_info\<close> holds a \<open>groupId\<close> that is true, the next command
  written is the group's, with that \<open>recipientGroupId\<close>, and nothing written for the
  message has a \<open>recipientAddress\<close>; if \<open>group_info\<close> has no \<open>groupId\<close>, the next command
  goes to \<open>message.source\<close> and nothing written for the message has a
  \<open>recipientGroupId\<close>.
\<close>

theorem reply_routing:
  "re_search search regex (text' message) = Inr (Some match) \<and>
   func message match \<noteq> Raised \<and> unpack (func message match) = Inr (stop, reply) \<and>
   group_info message = JObj g \<longrightarrow>
   (map_of g ''groupId'' = Some gid \<and> truthy gid \<longrightarrow>
      (\<exists>more. sent (snd (dispatch loads daemon search user message
                            ((order, regex, func) # hs) st)) =
         sent st @
         [(''type'', JStr ''send''), (''username'', user), (''recipientGroupId'', gid),
          (''messageBody'', reply), (''id'', JStr (fst (daemon (length (sent st)))))] # more \<and>
         (\<forall>p\<in>set more. map_of p ''recipientGroupId'' = Some gid \<and>
                         map_of p ''recipientAddress'' = None))) \<and>
   (map_of g ''groupId'' = None \<longrightarrow>
      (\<exists>more. sent (snd (dispatch loads daemon search user message
                            ((order, regex, func) # hs) st)) =
         sent st @
         [(''type'', JStr ''send''), (''username'', user),
          (''recipientAddress'', source message),
          (''messageBody'', reply), (''id'', JStr (fst (daemon (length (sent st)))))] # more \<and>
         (\<forall>p\<in>set more. map_of p ''recipientAddress'' = Some (source message) \<and>
                         map_of p ''recipientGroupId'' = None)))"
proof (intro impI conjI; elim conjE)
  assume a: "re_search search regex (text' message) = Inr (Some match)"
    "func message match \<noteq> Raised" "unpack (func message match) = Inr (stop, reply)"
    "group_info message = JObj g"
  {
    assume b: "map_of g ''groupId'' = Some gid" "truthy gid"
    from routed_to_group [where func = func and match = match, OF a b]
    show "\<exists>more. sent (snd (dispatch loads daemon search user message
                            ((order, regex, func) # hs) st)) =
         sent st @
         [(''type'', JStr ''send''), (''username'', user), (''recipientGroupId'', gid),
          (''messageBody'', reply), (''id'', JStr (fst (daemon (length (sent st)))))] # more \<and>
         (\<forall>p\<in>set more. map_of p ''recipientGroupId'' = Some gid \<and>
                         map_of p ''recipientAddress'' = None)" .
  }
  {
    assume "map_of g ''groupId'' = None"
    with a have "py_get (group_info message) ''groupId'' JNull = Inr JNull" by simp
    from routed_to_source [where func = func and match = match, OF a(1-3) this]
    show "\<exists>more. sent (snd (dispatch loads daemon search user message
                            ((order, regex, func) # hs) st)) =
         sent st @
         [(''type'', JStr ''send''), (''username'', user),
          (''recipientAddress'', source message),
          (''messageBody'', reply), (''id'', JStr (fst (daemon (length (sent st)))))] # more \<and>
         (\<forall>p\<in>set more. map_of p ''recipientAddress'' = Some (source message) \<and>
                         map_of p ''recipientGroupId'' = None)"
      by simp
  }
qed

theorem reply_routing_witness:
  "sent (snd (dispatch loads0 ok_daemon literal_search bot (group_message (JStr ''G1''))
                ((10, ''ping'', pong) # []) fresh)) =
     [[(''type'', JStr ''send''), (''username'', bot), (''recipientGroupId'', JStr ''G1''),
       (''messageBody'', JStr ''pong''), (''id'', JStr ''a1b2c3d4e5'')]] \<and>
   sent (snd (dispatch loads0 ok_daemon literal_search bot ping_message
                ((10, ''ping'', pong) # []) fresh)) =
     [[(''type'', JStr ''send''), (''username'', bot),
       (''recipientAddress'', JStr ''+15551234567''),
       (''messageBody'', JStr ''pong''), (''id'', JStr ''a1b2c3d4e5'')]]"
  using reply_routing [where search = literal_search and regex = "''ping''"
      and message = "group_message (JStr ''G1'')" and match = "()" and func = pong
      and stop = "JBool True" and reply = "JStr ''pong''"
      and g = "[(''groupId'', JStr ''G1'')]" and gid = "JStr ''G1''"
      and loads = loads0 and daemon = ok_daemon and user = bot and order = 10 and hs = "[]"
      and st = fresh]
    reply_routing [where search = literal_search and regex = "''ping''"
      and message = ping_message and match = "()" and func = pong
      and stop = "JBool True" and reply = "JStr ''pong''" and g = "[]"
      and loads = loads0 and daemon = ok_daemon and user = bot and order = 10 and hs = "[]"
      and st = fresh]
  by (simp add: dispatch_Cons direct_ok group_ok run_defs
        del: dispatch.simps(2) reply_with.simps)

text \<open>
  C6 as stated fails: \<open>group_info\<close> contains a \<open>groupId\<close>, the empty string, and the
  reply goes to the sender.
\<close>

theorem reply_routing_empty_group_id_counterexample:
  "sent (snd (dispatch loads0 ok_daemon literal_search bot (group_message (JStr []))
                [(10, ''ping'', pong)] fresh)) =
     [[(''type'', JStr ''send''), (''username'', bot),
       (''recipientAddress'', JStr ''+15551234567''),
       (''messageBody'', JStr ''pong''), (''id'', JStr ''a1b2c3d4e5'')]]"
  by (simp add: dispatch_Cons direct_ok group_ok run_defs
        del: dispatch.simps(2) reply_with.simps)

text \<open>
  C9. The test is \<open>if group_id:\<close>. A \<open>groupId\<close> that is present and false (the empty
  string, \<open>None\<close>, 0) sends the reply to \<open>message.source\<close>, and nothing written for the
  message has a \<open>recipientGroupId\<close>.
\<close>

theorem falsy_group_id_routed_to_source:
  "re_search search regex (text' message) = Inr (Some match) \<and>
   func message match \<noteq> Raised \<and> unpack (func message match) = Inr (stop, reply) \<and>
   group_info message = JObj g \<and> map_of g ''groupId'' = Some gid \<and> \<not> truthy gid \<longrightarrow>
   (\<exists>more. sent (snd (dispatch loads daemon search user message
                         ((order, regex, func) # hs) st)) =
      sent st @
      [(''type'', JStr ''send''), (''username'', user),
       (''recipientAddress'', source message),
       (''messageBody'', reply), (''id'', JStr (fst (daemon (length (sent st)))))] # more \<and>
      (\<forall>p\<in>set more. map_of p ''recipientAddress'' = Some (source message) \<and>
                      map_of p ''recipientGroupId'' = None))"
proof (intro impI; elim conjE)
  assume a: "re_search search regex (text' message) = Inr (Some match)"
    "func message match \<noteq> Raised" "unpack (func message match) = Inr (stop, reply)"
    and g: "group_info message = JObj g" "map_of g ''groupId'' = Some gid" and t: "\<not> truthy gid"
  from g have "py_get (group_info message) ''groupId'' JNull = Inr gid" by simp
  from routed_to_source [where func = func and match = match, OF a this t]
  show "\<exists>more. sent (snd (dispatch loads daemon search user message
                         ((order, regex, func) # hs) st)) =
      sent st @
      [(''type'', JStr ''send''), (''username'', user),
       (''recipientAddress'', source message),
       (''messageBody'', reply), (''id'', JStr (fst (daemon (length (sent st)))))] # more \<and>
      (\<forall>p\<in>set more. map_of p ''recipientAddress'' = Some (source message) \<and>
                      map_of p ''recipientGroupId'' = None)" .
qed

theorem falsy_group_id_routed_to_source_witness:
  "sent (snd (dispatch loads0 ok_daemon literal_search bot (group_message (JStr []))
                ((10, ''ping'', echo) # []) fresh)) =
     [[(''type'', JStr ''send''), (''username'', bot),
       (''recipientAddress'', JStr ''+15551234567''),
       (''messageBody'', JStr ''ping''), (''id'', JStr ''a1b2c3d4e5'')]] \<and>
   sent (snd (dispatch loads0 ok_daemon literal_search bot (group_message JNull)
                ((10, ''ping'', echo) # []) fresh)) =
     [[(''type'', JStr ''send''), (''username'', bot),
       (''recipientAddress'', JStr ''+15551234567''),
       (''messageBody'', JStr ''ping''), (''id'', JStr ''a1b2c3d4e5'')]] \<and>
   sent (snd (dispatch loads0 ok_daemon literal_search bot (group_message (JInt 0))
                ((10, ''ping'', echo) # []) fresh)) =
     [[(''type'', JStr ''send''), (''username'', bot),
       (''recipientAddress'', JStr ''+15551234567''),
       (''messageBody'', JStr ''ping''), (''id'', JStr ''a1b2c3d4e5'')]]"
  using falsy_group_id_routed_to_source [where search = literal_search and regex = "''ping''"
      and message = "group_message (JStr [])" and match = "()" and func = echo
      and stop = "JBool False" and reply = "JStr ''ping''"
      and g = "[(''groupId'', JStr [])]" and gid = "JStr []"
      and loads = loads0 and daemon = ok_daemon and user = bot and order = 10 and hs = "[]"
      and st = fresh]
    falsy_group_id_routed_to_source [where search = literal_search and regex = "''ping''"
      and message = "group_message JNull" and match = "()" and func = echo
      and stop = "JBool False" and reply = "JStr ''ping''"
      and g = "[(''groupId'', JNull)]" and gid = JNull
      and loads = loads0 and daemon = ok_daemon and user = bot and order = 10 and hs = "[]"
      and st = fresh]
    falsy_group_id_routed_to_source [where search = literal_search and regex = "''ping''"
      and message = "group_message (JInt 0)" and match = "()" and func = echo
      and stop = "JBool False" and reply = "JStr ''ping''"
      and g = "[(''groupId'', JInt 0)]" and gid = "JInt 0"
      and loads = loads0 and daemon = ok_daemon and user = bot and order = 10 and hs = "[]"
      and st = fresh]
  by (simp add: dispatch_Cons direct_ok group_ok run_defs
        del: dispatch.simps(2) reply_with.simps)

end
